theory Spec2Isabelle
  imports Main
begin

section \<open>Python values the stopwatch works on\<close>

text \<open>
  The program is \<^verbatim>\<open>main.py\<close>: a Tk window (class \<^verbatim>\<open>RubiksCubeStopWatch\<close>) that times a
  solve with \<^verbatim>\<open>time.perf_counter()\<close>, shows the time formatted by \<^verbatim>\<open>format_seconds\<close>
  and sends it to InfluxDB.

  Exceptions are values. The classes below are the ones the statements of \<^verbatim>\<open>main.py\<close>
  can raise; \<open>UncaughtError\<close> stands for any exception of the InfluxDB client that is not
  an \<^verbatim>\<open>InfluxDBError\<close>.
\<close>

datatype pyerror =
    IndexError
  | KeyError string
  | TypeError
  | ValueError
  | FileNotFoundError
  | JSONDecodeError
  | TclError
  | UncaughtError

text \<open>
  A Python \<^verbatim>\<open>float\<close> is a binary64 number. The code reads a float in four ways only:
  \<^verbatim>\<open>str(x)\<close>, \<^verbatim>\<open>time.gmtime(x)\<close>, truth value and subtraction. The first three depend on the
  float through its shortest round-trip decimal alone, which is what CPython's
  \<^verbatim>\<open>float.__repr__\<close> computes (\<^verbatim>\<open>_Py_dg_dtoa\<close>, mode 0): a digit string without trailing
  zeros and the position \<open>decpt\<close> of the decimal point, the value being
  \<open>0.d\<^sub>1d\<^sub>2\<dots>d\<^sub>n \<times> 10^decpt\<close>. A non-negative finite float is modelled by that pair;
  \<open>0.0\<close> is the digit string \<open>0\<close> with \<open>decpt = 1\<close>. Negative numbers, infinities and NaN
  are outside the model (an elapsed time read off a monotonic clock is none of them).
  Subtraction rounds in binary and is not a function of the decimals that this theory
  could compute, so it enters the stopwatch model as a parameter.
\<close>

record pyfloat =
  digits :: "nat list"
  decpt :: int

definition wf_pyfloat :: "pyfloat \<Rightarrow> bool" where
  "wf_pyfloat f \<longleftrightarrow>
     digits f \<noteq> [] \<and> length (digits f) \<le> 17 \<and> list_all (\<lambda>d. d < 10) (digits f) \<and>
     (if digits f = [0] then decpt f = 1 else hd (digits f) \<noteq> 0 \<and> last (digits f) \<noteq> 0)"

text \<open>Truth value of a float: \<^verbatim>\<open>bool(x)\<close> is \<^verbatim>\<open>x != 0.0\<close>.\<close>

definition truthy :: "pyfloat \<Rightarrow> bool" where
  "truthy f \<longleftrightarrow> list_ex (\<lambda>d. d \<noteq> 0) (digits f)"

definition digit_char :: "nat \<Rightarrow> char" where
  "digit_char n = ''0123456789'' ! (n mod 10)"

fun decimal :: "nat \<Rightarrow> string" where
  "decimal n = (if n < 10 then [digit_char n] else decimal (n div 10) @ [digit_char (n mod 10)])"

declare decimal.simps [simp del]

text \<open>The exponent of \<^verbatim>\<open>repr\<close>, printed by C's \<^verbatim>\<open>"%+.02d"\<close>: a sign and at least two digits.\<close>

definition exponent_text :: "int \<Rightarrow> string" where
  "exponent_text e =
     (if e < 0 then ''-'' else ''+'') @
     (if nat \<bar>e\<bar> < 10 then ''0'' else '''') @ decimal (nat \<bar>e\<bar>)"

text \<open>
  \<^verbatim>\<open>str(x)\<close> of a float is \<^verbatim>\<open>repr(x)\<close> (CPython's \<^verbatim>\<open>format_float_short\<close> with format code
  \<^verbatim>\<open>'r'\<close>): exponent notation when \<open>decpt \<le> -4\<close> or \<open>decpt > 16\<close>, with a point only when the
  mantissa has more than one digit; positional notation otherwise, with \<^verbatim>\<open>.0\<close> appended to
  an integral value.
\<close>

definition float_repr :: "pyfloat \<Rightarrow> string" where
  "float_repr f =
     (let ds = map digit_char (digits f); n = int (length ds); p = decpt f in
      if p \<le> - 4 \<or> 16 < p then
        take 1 ds @ (if 1 < n then ''.'' @ drop 1 ds else '''') @ ''e'' @ exponent_text (p - 1)
      else if p \<le> 0 then ''0.'' @ replicate (nat (- p)) CHR ''0'' @ ds
      else if p < n then take (nat p) ds @ ''.'' @ drop (nat p) ds
      else ds @ replicate (nat (p - n)) CHR ''0'' @ ''.0'')"

text \<open>\<^verbatim>\<open>s.split(c)\<close> for a one-character separator: every occurrence splits.\<close>

fun split_on :: "char \<Rightarrow> string \<Rightarrow> string list" where
  "split_on c [] = [[]]"
| "split_on c (x # xs) =
     (if x = c then [] # split_on c xs
      else (case split_on c xs of p # ps \<Rightarrow> (x # p) # ps | [] \<Rightarrow> [[x]]))"

text \<open>
  \<^verbatim>\<open>time.gmtime(x)\<close> rounds a float down to whole seconds and breaks them into calendar
  fields; \<^verbatim>\<open>strftime("%H:%M:%S", t)\<close> prints the hour of the day, the minute and the second
  with two digits each. Only these three fields are read, so only they are modelled.
  For \<open>decpt \<le> 16\<close> the whole part of the shortest decimal is the whole part of the float
  (every integer below \<open>2^53\<close> is a float, so rounding the decimal to the float cannot
  cross one). The range check of the platform's \<^verbatim>\<open>gmtime\<close> (years beyond the C \<^verbatim>\<open>int\<close>)
  is not modelled.
\<close>

definition nat_of_digits :: "nat list \<Rightarrow> nat" where
  "nat_of_digits ds = foldl (\<lambda>a d. 10 * a + d) 0 ds"

definition whole_seconds :: "pyfloat \<Rightarrow> nat" where
  "whole_seconds f =
     (if decpt f \<le> 0 then 0
      else nat_of_digits (take (nat (decpt f)) (digits f @ replicate (nat (decpt f)) 0)))"

record struct_time =
  tm_hour :: nat
  tm_min :: nat
  tm_sec :: nat

definition gmtime :: "pyfloat \<Rightarrow> struct_time" where
  "gmtime f =
     (let s = whole_seconds f in
      \<lparr>tm_hour = (s div 3600) mod 24, tm_min = (s div 60) mod 60, tm_sec = s mod 60\<rparr>)"

definition two_digits :: "nat \<Rightarrow> string" where
  "two_digits n = [digit_char (n div 10), digit_char n]"

definition strftime_HMS :: "struct_time \<Rightarrow> string" where
  "strftime_HMS t = two_digits (tm_hour t) @ '':'' @ two_digits (tm_min t) @ '':'' @ two_digits (tm_sec t)"

section \<open>The duration formatter\<close>

text \<open>
  \<^verbatim>\<open>
  def format_seconds(seconds: float):
      miliseconds = str(seconds).split(".")[1][:3]
      str_time = time.strftime("%H:%M:%S", time.gmtime(seconds))
      str_time += f'.{miliseconds}'
      return str_time
  \<close>
  Indexing the split with \<^verbatim>\<open>[1]\<close> raises \<^verbatim>\<open>IndexError\<close> when the text has no point; the
  slice \<^verbatim>\<open>[:3]\<close> keeps at most three characters and never raises.
\<close>

definition format_seconds :: "pyfloat \<Rightarrow> pyerror + string" where
  "format_seconds seconds =
     (case split_on CHR ''.'' (float_repr seconds) of
        _ # part # _ \<Rightarrow>
          (let miliseconds = take 3 part;
               str_time = strftime_HMS (gmtime seconds)
           in Inr (str_time @ ''.'' @ miliseconds))
      | _ \<Rightarrow> Inl IndexError)"

section \<open>The window and its session\<close>

text \<open>
  The fields of \<^verbatim>\<open>RubiksCubeStopWatch\<close> that its methods read or write: \<^verbatim>\<open>config\<close>,
  \<^verbatim>\<open>_start_time\<close>, \<^verbatim>\<open>_final_time\<close>, the text of \<^verbatim>\<open>label\<close>, the text of \<^verbatim>\<open>influx_btn\<close> and
  whether it is placed in the window, the value of the \<^verbatim>\<open>cube_choice\<close> variable and
  \<^verbatim>\<open>_after_id\<close>. Tk's own table of pending \<^verbatim>\<open>after\<close> callbacks is part of the state:
  \<open>timers\<close> lists the identifiers still pending, \<open>after_seq\<close> is the next identifier.
  The JSON object of \<^verbatim>\<open>config.json\<close> is a map from keys to values.
\<close>

record stopwatch =
  config :: "string \<rightharpoonup> string"
  start_time :: "pyfloat option"
  final_time :: "pyfloat option"
  label_text :: string
  influx_btn_text :: string
  influx_btn_shown :: bool
  cube_choice :: string
  after_id :: "nat option"
  timers :: "nat list"
  after_seq :: nat

subsection \<open>Startup\<close>

text \<open>
  What \<^verbatim>\<open>__init__\<close> finds outside the program: whether Tk can open a display, what
  \<^verbatim>\<open>open("config.json")\<close> and \<^verbatim>\<open>json.load\<close> give, and whether the image
  \<^verbatim>\<open>rubiks_cube.png\<close> can be read.
\<close>

datatype config_file = Absent | Malformed | Loaded "string \<rightharpoonup> string"

record environment =
  display_ok :: bool
  config_json :: config_file
  image_ok :: bool

definition get_config :: "config_file \<Rightarrow> pyerror + (string \<rightharpoonup> string)" where
  "get_config f_config =
     (case f_config of
        Absent \<Rightarrow> Inl FileNotFoundError
      | Malformed \<Rightarrow> Inl JSONDecodeError
      | Loaded d \<Rightarrow> Inr d)"

definition cube_options :: "string list" where
  "cube_options = [''speed'', ''classic'']"

text \<open>The state in which \<^verbatim>\<open>__init__\<close> enters \<^verbatim>\<open>mainloop\<close>.\<close>

definition initial :: "(string \<rightharpoonup> string) \<Rightarrow> stopwatch" where
  "initial cfg =
     \<lparr>config = cfg, start_time = None, final_time = None,
      label_text = ''Press space to start the stopwatch'',
      influx_btn_text = ''Send result to InfluxDb'', influx_btn_shown = False,
      cube_choice = ''speed'', after_id = None, timers = [], after_seq = 0\<rparr>"

text \<open>
  \<^verbatim>\<open>__init__\<close>: \<^verbatim>\<open>super().__init__()\<close>, then \<^verbatim>\<open>self.config = self.get_config()\<close>, then the
  widgets (the image first), then \<^verbatim>\<open>self.mainloop()\<close>. \<open>Inr\<close> is the window open, in its
  event loop; \<open>Inl\<close> is the exception that ended the program before the loop.
\<close>

definition init :: "environment \<Rightarrow> pyerror + stopwatch" where
  "init env =
     (if \<not> display_ok env then Inl TclError
      else (case get_config (config_json env) of
              Inl e \<Rightarrow> Inl e
            | Inr cfg \<Rightarrow> if \<not> image_ok env then Inl TclError else Inr (initial cfg)))"

subsection \<open>Timer methods\<close>

text \<open>
  A method that mutates \<^verbatim>\<open>self\<close> returns the state it leaves and the exception that
  escaped it, if any: assignments made before a \<^verbatim>\<open>raise\<close> stay.
  \<open>fsub\<close> is float subtraction; \<open>now\<close> is what \<^verbatim>\<open>time.perf_counter()\<close> returns in the call.
\<close>

definition tk_after :: "stopwatch \<Rightarrow> stopwatch" where
  \<comment> \<open>\<^verbatim>\<open>self._after_id = self.after(20, self.display_time)\<close>\<close>
  "tk_after st =
     st\<lparr>after_id := Some (after_seq st), timers := timers st @ [after_seq st],
        after_seq := Suc (after_seq st)\<rparr>"

definition after_cancel :: "nat option \<Rightarrow> stopwatch \<Rightarrow> pyerror + stopwatch" where
  \<comment> \<open>tkinter raises \<^verbatim>\<open>ValueError\<close> for \<^verbatim>\<open>None\<close>; an identifier that is no longer pending is ignored\<close>
  "after_cancel ident st =
     (case ident of
        None \<Rightarrow> Inl ValueError
      | Some i \<Rightarrow> Inr (st\<lparr>timers := removeAll i (timers st)\<rparr>))"

definition start :: "pyfloat \<Rightarrow> stopwatch \<Rightarrow> stopwatch" where
  "start now st = st\<lparr>start_time := Some now\<rparr>"

definition display_time ::
  "(pyfloat \<Rightarrow> pyfloat \<Rightarrow> pyfloat) \<Rightarrow> pyfloat \<Rightarrow> stopwatch \<Rightarrow> stopwatch \<times> pyerror option" where
  "display_time fsub now st =
     (case (case start_time st of
              None \<Rightarrow> Inr ''Starting....''
            | Some t0 \<Rightarrow> format_seconds (fsub now t0)) of
        Inl e \<Rightarrow> (st, Some e)
      | Inr text \<Rightarrow> (tk_after (st\<lparr>label_text := text\<rparr>), None))"

definition stop ::
  "(pyfloat \<Rightarrow> pyfloat \<Rightarrow> pyfloat) \<Rightarrow> pyfloat \<Rightarrow> stopwatch \<Rightarrow> stopwatch \<times> pyerror option" where
  "stop fsub now st =
     (case after_cancel (after_id st) st of
        Inl e \<Rightarrow> (st, Some e)
      | Inr st1 \<Rightarrow>
          (case start_time st1 of
             None \<Rightarrow> (st1, Some TypeError)
           | Some t0 \<Rightarrow>
               (let elapsed_seconds = fsub now t0;
                    st2 = st1\<lparr>final_time := Some elapsed_seconds, influx_btn_shown := True\<rparr>
                in case format_seconds elapsed_seconds of
                     Inl e \<Rightarrow> (st2, Some e)
                   | Inr str_time \<Rightarrow>
                       (st2\<lparr>label_text := ''Elapsed time: '' @ str_time @ '' seconds''\<rparr>, None))))"

definition restart :: "stopwatch \<Rightarrow> stopwatch" where
  "restart st =
     st\<lparr>start_time := None, final_time := None, influx_btn_shown := False,
        influx_btn_text := ''Send result to InfluxDb'',
        label_text := ''Hit space to start the stopwatch!''\<rparr>"

text \<open>
  \<^verbatim>\<open>not self._final_time\<close> and \<^verbatim>\<open>self._final_time\<close> test the truth value: \<^verbatim>\<open>None\<close> and
  \<^verbatim>\<open>0.0\<close> are both false.
\<close>

definition truth :: "pyfloat option \<Rightarrow> bool" where
  "truth v = (case v of None \<Rightarrow> False | Some x \<Rightarrow> truthy x)"

definition handle_user_event ::
  "(pyfloat \<Rightarrow> pyfloat \<Rightarrow> pyfloat) \<Rightarrow> string \<Rightarrow> pyfloat \<Rightarrow> stopwatch \<Rightarrow> stopwatch \<times> pyerror option" where
  "handle_user_event fsub keysym now st =
     (if keysym = ''space'' \<and> start_time st = None then
        (case display_time fsub now st of
           (st1, Some e) \<Rightarrow> (st1, Some e)
         | (st1, None) \<Rightarrow> (start now st1, None))
      else if keysym = ''space'' \<and> \<not> truth (final_time st) then stop fsub now st
      else if keysym = ''a'' \<and> truth (final_time st) then (restart st, None)
      else (st, None))"

subsection \<open>Sending\<close>

text \<open>
  The point and the arguments of the client and of its \<^verbatim>\<open>write\<close>. The InfluxDB client is
  not part of the program: \<open>write\<close> is a parameter that tells, for the call it receives,
  whether the library returns, raises \<^verbatim>\<open>InfluxDBError\<close> (with the text \<^verbatim>\<open>str(ex)\<close>) or
  raises an exception of another class, which \<^verbatim>\<open>except InfluxDBError\<close> does not catch.
\<close>

record point =
  measurement :: string
  point_tags :: "(string \<times> string) list"
  point_fields :: "(string \<times> pyfloat) list"

record write_call =
  url :: string
  token :: string
  org :: string
  bucket :: string
  data :: point

datatype write_outcome = Written | Raises_InfluxDBError string | Raises_other

definition subscript :: "(string \<rightharpoonup> string) \<Rightarrow> string \<Rightarrow> pyerror + string" where
  \<comment> \<open>\<^verbatim>\<open>d[k]\<close> on a dict\<close>
  "subscript d k = (case d k of None \<Rightarrow> Inl (KeyError k) | Some v \<Rightarrow> Inr v)"

definition solving_point :: "string \<Rightarrow> pyfloat \<Rightarrow> point" where
  \<comment> \<open>\<^verbatim>\<open>Point("solving_time").tag("cube", cube_choice).field("recorded_time", recorded_seconds)\<close>\<close>
  "solving_point cube recorded_seconds =
     \<lparr>measurement = ''solving_time'', point_tags = [(''cube'', cube)],
      point_fields = [(''recorded_time'', recorded_seconds)]\<rparr>"

definition write_request :: "stopwatch \<Rightarrow> pyfloat \<Rightarrow> pyerror + write_call" where
  \<comment> \<open>the lookups in the order of the source: the three of \<^verbatim>\<open>access_config\<close>, the point, the bucket\<close>
  "write_request st recorded_seconds =
     (case subscript (config st) ''INFLUX_URL'' of Inl e \<Rightarrow> Inl e | Inr u \<Rightarrow>
      (case subscript (config st) ''INFLUX_TOKEN'' of Inl e \<Rightarrow> Inl e | Inr t \<Rightarrow>
       (case subscript (config st) ''INFLUX_ORG'' of Inl e \<Rightarrow> Inl e | Inr og \<Rightarrow>
        (let data = solving_point (cube_choice st) recorded_seconds in
         (case subscript (config st) ''INFLUX_BUCKET'' of Inl e \<Rightarrow> Inl e | Inr b \<Rightarrow>
            Inr \<lparr>url = u, token = t, org = og, bucket = b, data = data\<rparr>)))))"

definition transmit_to_influxdb ::
  "(write_call \<Rightarrow> write_outcome) \<Rightarrow> pyfloat option \<Rightarrow> stopwatch \<Rightarrow> stopwatch \<times> pyerror option" where
  "transmit_to_influxdb write recorded_seconds st =
     (case recorded_seconds of
        None \<Rightarrow> (st, None)
      | Some secs \<Rightarrow>
          (case write_request st secs of
             Inl e \<Rightarrow> (st, Some e)
           | Inr call \<Rightarrow>
               (case write call of
                  Written \<Rightarrow> (st\<lparr>influx_btn_text := ''Data sent to InfluxDb!''\<rparr>, None)
                | Raises_InfluxDBError ex \<Rightarrow> (st\<lparr>label_text := ex\<rparr>, None)
                | Raises_other \<Rightarrow> (st, Some UncaughtError))))"

subsection \<open>The event loop\<close>

text \<open>
  What can happen to the open window: a key press (\<^verbatim>\<open>bind("<Key>", handle_user_event)\<close>),
  the oldest pending \<^verbatim>\<open>after\<close> callback coming due (\<^verbatim>\<open>display_time\<close>), a click on the send
  button (\<^verbatim>\<open>command=lambda: self.transmit_to_influxdb(self._final_time)\<close>) and a choice in
  the option menu. Key presses and timer callbacks carry the clock reading of the
  call, a click carries the behaviour of the server at that moment. Tk reports an
  exception that escapes a callback and goes on with the state the callback left.
\<close>

datatype event =
    Key string pyfloat
  | Tick pyfloat
  | Click_send "write_call \<Rightarrow> write_outcome"
  | Select_cube string

fun dispatch ::
  "(pyfloat \<Rightarrow> pyfloat \<Rightarrow> pyfloat) \<Rightarrow> event \<Rightarrow> stopwatch \<Rightarrow> stopwatch \<times> pyerror option" where
  "dispatch fsub (Key keysym now) st = handle_user_event fsub keysym now st"
| "dispatch fsub (Tick now) st =
     (case timers st of
        [] \<Rightarrow> (st, None)
      | i # pending \<Rightarrow> display_time fsub now (st\<lparr>timers := pending\<rparr>))"
| "dispatch fsub (Click_send write) st = transmit_to_influxdb write (final_time st) st"
| "dispatch fsub (Select_cube c) st =
     (if c \<in> set cube_options then (st\<lparr>cube_choice := c\<rparr>, None) else (st, None))"

fun mainloop :: "(pyfloat \<Rightarrow> pyfloat \<Rightarrow> pyfloat) \<Rightarrow> event list \<Rightarrow> stopwatch \<Rightarrow> stopwatch" where
  "mainloop fsub [] st = st"
| "mainloop fsub (ev # evs) st = mainloop fsub evs (fst (dispatch fsub ev st))"

subsection \<open>The four states of the specification\<close>

text \<open>
  The program has no state variable. The states of the specification are read off the
  window: the send button is on screen exactly in \<open>Stopped\<close> and \<open>Sent\<close>, and its caption
  tells the two apart; without the button, the session is \<open>Running\<close> once a start instant
  is held and \<open>Idle\<close> before.
\<close>

datatype phase = Idle | Running | Stopped | Sent

definition phase_of :: "stopwatch \<Rightarrow> phase" where
  "phase_of st =
     (if influx_btn_shown st then
        (if influx_btn_text st = ''Data sent to InfluxDb!'' then Sent else Stopped)
      else if start_time st = None then Idle else Running)"





section \<open>Notions used in the statements\<close>

text \<open>
  The shape the formatter aims at: two digits, a colon, two digits, a colon, two digits,
  a point and \<open>k\<close> digits.
\<close>

definition is_digit :: "char \<Rightarrow> bool" where
  "is_digit c \<longleftrightarrow> c \<in> set ''0123456789''"

definition clock_shape :: "nat \<Rightarrow> string \<Rightarrow> bool" where
  "clock_shape k s \<longleftrightarrow>
     length s = 9 + k \<and>
     list_all is_digit (take 2 s) \<and> s ! 2 = CHR '':'' \<and>
     list_all is_digit (take 2 (drop 3 s)) \<and> s ! 5 = CHR '':'' \<and>
     list_all is_digit (take 2 (drop 6 s)) \<and> s ! 8 = CHR ''.'' \<and>
     list_all is_digit (drop 9 s)"

text \<open>
  A float that \<^verbatim>\<open>repr\<close> prints in positional notation (from \<open>0.0001\<close> up to, not
  including, \<open>1e16\<close>, and \<open>0.0\<close>), and the fractional digits of a float: the digits that
  follow the point when the value is written out positionally, or a single \<open>0\<close> for an
  integral value. For a float in positional notation they are the digits after the
  point of \<^verbatim>\<open>str\<close>.
\<close>

definition positional :: "pyfloat \<Rightarrow> bool" where
  "positional f \<longleftrightarrow> - 4 < decpt f \<and> decpt f \<le> 16"

definition fraction_digits :: "pyfloat \<Rightarrow> nat list" where
  "fraction_digits f =
     (if decpt f \<le> 0 then replicate (nat (- decpt f)) 0 @ digits f
      else if nat (decpt f) < length (digits f) then drop (nat (decpt f)) (digits f)
      else [0])"

text \<open>
  What holds of the window between two events, whatever the events were: the send
  button is on screen exactly when a final time is recorded, a recorded final time comes
  with a start instant, a start instant comes with an \<^verbatim>\<open>after\<close> identifier, and a hidden
  button carries its first caption.
\<close>

definition consistent :: "stopwatch \<Rightarrow> bool" where
  "consistent st \<longleftrightarrow>
     (final_time st \<noteq> None) = influx_btn_shown st \<and>
     (influx_btn_shown st \<longrightarrow> start_time st \<noteq> None) \<and>
     (start_time st \<noteq> None \<longrightarrow> after_id st \<noteq> None) \<and>
     (\<not> influx_btn_shown st \<longrightarrow> influx_btn_text st = ''Send result to InfluxDb'')"



section \<open>Splitting a decimal numeral\<close>

lemma is_digit_digit_char: "is_digit (digit_char n)"
  unfolding is_digit_def digit_char_def by (rule nth_mem) simp

lemma list_all_replicate: "P x \<Longrightarrow> list_all P (replicate n x)"
  by (induction n) simp_all

lemma is_digit_not_point: "is_digit c \<Longrightarrow> c \<noteq> CHR ''.''"
  by (auto simp: is_digit_def)

lemma digits_no_point: "list_all is_digit s \<Longrightarrow> CHR ''.'' \<notin> set s"
  by (induction s) (auto dest: is_digit_not_point)

lemma split_on_none: "c \<notin> set s \<Longrightarrow> split_on c s = [s]"
  by (induction s) auto

lemma split_on_first: "c \<notin> set a \<Longrightarrow> split_on c (a @ c # b) = a # split_on c b"
  by (induction a) auto

lemma split_numeral:
  assumes "list_all is_digit whole" and "list_all is_digit frac"
  shows "split_on CHR ''.'' (whole @ ''.'' @ frac) = [whole, frac]"
  using assms by (simp add: split_on_first split_on_none digits_no_point)

lemma format_seconds_numeral:
  assumes "float_repr d = whole @ ''.'' @ frac"
    and "list_all is_digit whole" and "list_all is_digit frac"
  shows "format_seconds d = Inr (strftime_HMS (gmtime d) @ ''.'' @ take 3 frac)"
  using split_numeral [OF assms(2,3)] assms(1) by (simp add: format_seconds_def)

lemma list_all_digit_chars: "list_all is_digit (map digit_char ds)"
  by (induction ds) (simp_all add: is_digit_digit_char)

lemma float_repr_positional:
  assumes "positional d"
  shows "\<exists>whole. list_all is_digit whole \<and>
           float_repr d = whole @ ''.'' @ map digit_char (fraction_digits d)"
proof -
  let ?ds = "map digit_char (digits d)"
  have zero: "CHR ''0'' = digit_char 0" by (simp add: digit_char_def)
  consider (small) "decpt d \<le> 0" | (inner) "0 < decpt d" "nat (decpt d) < length (digits d)"
    | (outer) "0 < decpt d" "length (digits d) \<le> nat (decpt d)" by linarith
  then show ?thesis
  proof cases
    case small
    have "float_repr d = ''0'' @ ''.'' @ map digit_char (fraction_digits d)"
      using small assms by (simp add: float_repr_def positional_def fraction_digits_def Let_def zero)
    moreover have "list_all is_digit ''0''" by (simp add: is_digit_def)
    ultimately show ?thesis by blast
  next
    case inner
    have "float_repr d = take (nat (decpt d)) ?ds @ ''.'' @ map digit_char (fraction_digits d)"
      using inner assms by (simp add: float_repr_def positional_def fraction_digits_def Let_def drop_map)
    moreover have "list_all is_digit (take (nat (decpt d)) ?ds)"
      by (simp add: take_map list_all_digit_chars)
    ultimately show ?thesis by blast
  next
    case outer
    have "float_repr d = (?ds @ replicate (nat (decpt d - int (length (digits d)))) CHR ''0'') @ ''.'' @ map digit_char (fraction_digits d)"
      using outer assms by (simp add: float_repr_def positional_def fraction_digits_def Let_def zero)
    moreover have "list_all is_digit (?ds @ replicate (nat (decpt d - int (length (digits d)))) CHR ''0'')"
      by (simp add: list_all_digit_chars list_all_replicate is_digit_def)
    ultimately show ?thesis by blast
  qed
qed

lemma strftime_shape:
  "clock_shape (length frac) (strftime_HMS t @ ''.'' @ frac) \<longleftrightarrow> list_all is_digit frac"
  by (simp add: clock_shape_def strftime_HMS_def two_digits_def is_digit_digit_char)

section \<open>What every event preserves\<close>

lemma consistent_initial: "consistent (initial cfg)"
  by (simp add: consistent_def initial_def)

lemma consistent_display_time:
  "consistent st \<Longrightarrow> consistent (fst (display_time fsub now st))"
  by (auto simp: consistent_def display_time_def tk_after_def split: option.splits sum.splits)

lemma consistent_timers: "consistent (st\<lparr>timers := ts\<rparr>) = consistent st"
  by (simp add: consistent_def)

lemma consistent_stop: "consistent st \<Longrightarrow> consistent (fst (stop fsub now st))"
  by (auto simp: consistent_def stop_def after_cancel_def Let_def split: option.splits sum.splits)

lemma consistent_restart: "consistent st \<Longrightarrow> consistent (restart st)"
  by (simp add: consistent_def restart_def)

lemma consistent_handle_user_event:
  "consistent st \<Longrightarrow> consistent (fst (handle_user_event fsub keysym now st))"
proof -
  assume c: "consistent st"
  have "consistent (start now (fst (display_time fsub now st)))"
    if "start_time st = None"
    using c that
    by (auto simp: consistent_def display_time_def tk_after_def start_def)
  moreover have "snd (display_time fsub now st) = None" if "start_time st = None"
    using that by (simp add: display_time_def)
  ultimately show ?thesis
    using c consistent_stop [OF c] consistent_restart [OF c]
    by (auto simp: handle_user_event_def split: prod.splits option.splits)
qed

lemma consistent_transmit:
  "consistent st \<Longrightarrow> final_time st = r \<Longrightarrow> consistent (fst (transmit_to_influxdb write r st))"
  by (auto simp: consistent_def transmit_to_influxdb_def split: option.splits sum.splits write_outcome.splits)

lemma consistent_dispatch: "consistent st \<Longrightarrow> consistent (fst (dispatch fsub ev st))"
proof (cases ev)
  case (Key keysym now)
  then show "consistent st \<Longrightarrow> ?thesis" by (simp add: consistent_handle_user_event)
next
  case (Tick now)
  then show "consistent st \<Longrightarrow> ?thesis"
    by (cases "timers st") (simp_all add: consistent_display_time consistent_timers)
next
  case (Click_send wr)
  then show "consistent st \<Longrightarrow> ?thesis" by (simp add: consistent_transmit)
next
  case (Select_cube c)
  then show "consistent st \<Longrightarrow> ?thesis" by (simp add: consistent_def)
qed

lemma consistent_mainloop: "consistent st \<Longrightarrow> consistent (mainloop fsub evs st)"
  by (induction evs arbitrary: st) (simp_all add: consistent_dispatch)

lemma consistent_reachable: "consistent (mainloop fsub evs (initial cfg))"
  by (rule consistent_mainloop) (rule consistent_initial)






section \<open>The formatter on the floats Python prints in positional notation\<close>

lemma fraction_digits_nonempty: "wf_pyfloat d \<Longrightarrow> fraction_digits d \<noteq> []"
  by (auto simp: wf_pyfloat_def fraction_digits_def)

lemma replicate_pos: "0 < n \<Longrightarrow> replicate n x = x # replicate (n - 1) x"
  by (cases n) simp_all

lemmas eval_defs = wf_pyfloat_def positional_def fraction_digits_def strftime_HMS_def gmtime_def
  whole_seconds_def nat_of_digits_def two_digits_def digit_char_def clock_shape_def is_digit_def

text \<open>
  Claim C1, as the code has it. For every non-negative duration that Python prints in
  positional notation, \<^verbatim>\<open>format_seconds\<close> returns the two-digit hour, minute and second
  fields followed by a point and the first digits of the fraction as \<^verbatim>\<open>str\<close> prints it:
  at most three of them, at least one, and no padding. The millisecond field is
  therefore one, two or three digits wide.
\<close>

theorem format_seconds_positional:
  assumes "wf_pyfloat d" and "positional d"
  shows "format_seconds d =
           Inr (strftime_HMS (gmtime d) @ ''.'' @ map digit_char (take 3 (fraction_digits d))) \<and>
         clock_shape (min 3 (length (fraction_digits d)))
           (strftime_HMS (gmtime d) @ ''.'' @ map digit_char (take 3 (fraction_digits d))) \<and>
         1 \<le> length (fraction_digits d)"
proof -
  obtain whole where w: "list_all is_digit whole"
    and r: "float_repr d = whole @ ''.'' @ map digit_char (fraction_digits d)"
    using float_repr_positional [OF assms(2)] by blast
  have "format_seconds d =
      Inr (strftime_HMS (gmtime d) @ ''.'' @ take 3 (map digit_char (fraction_digits d)))"
    using r w by (rule format_seconds_numeral) (rule list_all_digit_chars)
  then have a: "format_seconds d =
      Inr (strftime_HMS (gmtime d) @ ''.'' @ map digit_char (take 3 (fraction_digits d)))"
    by (simp add: take_map)
  have "clock_shape (length (map digit_char (take 3 (fraction_digits d))))
      (strftime_HMS (gmtime d) @ ''.'' @ map digit_char (take 3 (fraction_digits d)))"
    unfolding strftime_shape by (rule list_all_digit_chars)
  then have b: "clock_shape (min 3 (length (fraction_digits d)))
      (strftime_HMS (gmtime d) @ ''.'' @ map digit_char (take 3 (fraction_digits d)))"
    by (simp add: min.commute)
  have c: "1 \<le> length (fraction_digits d)"
    using fraction_digits_nonempty [OF assms(1)] by (cases "fraction_digits d") simp_all
  from a b c show ?thesis by blast
qed

text \<open>The duration \<open>0.05\<close>: the text is \<^verbatim>\<open>00:00:00.05\<close>, with a field of two digits.\<close>

theorem format_seconds_positional_witness:
  "wf_pyfloat \<lparr>digits = [5], decpt = - 1\<rparr> \<and> positional \<lparr>digits = [5], decpt = - 1\<rparr> \<and>
   format_seconds \<lparr>digits = [5], decpt = - 1\<rparr> = Inr ''00:00:00.05'' \<and>
   clock_shape 2 ''00:00:00.05''"
  using format_seconds_positional [of "\<lparr>digits = [5], decpt = - 1\<rparr>"]
  by (simp add: eval_defs)

text \<open>
  Claim C1 as stated fails at \<open>0.0\<close>: \<^verbatim>\<open>str(0.0)\<close> is \<^verbatim>\<open>0.0\<close>, the part after the point
  is \<^verbatim>\<open>0\<close>, and the result \<^verbatim>\<open>00:00:00.0\<close> has a millisecond field of one digit. Outside
  positional notation the field need not even be digits: \<^verbatim>\<open>str(1.5e-05)\<close> is \<^verbatim>\<open>1.5e-05\<close>
  and the field is \<^verbatim>\<open>5e-\<close>.
\<close>

theorem format_seconds_zero_unpadded:
  "format_seconds \<lparr>digits = [0], decpt = 1\<rparr> = Inr ''00:00:00.0'' \<and>
   format_seconds \<lparr>digits = [0], decpt = 1\<rparr> \<noteq> Inr ''00:00:00.000'' \<and>
   \<not> clock_shape 3 ''00:00:00.0'' \<and>
   float_repr \<lparr>digits = [1, 5], decpt = - 4\<rparr> = ''1.5e-05'' \<and>
   format_seconds \<lparr>digits = [1, 5], decpt = - 4\<rparr> = Inr ''00:00:00.5e-''"
  by (simp add: format_seconds_def float_repr_def exponent_text_def decimal.simps [of 5] eval_defs)

text \<open>
  Claim C5, as the code has it. For every duration of at least 24 hours (that Python
  prints in positional notation), the hour field is the hour of the day that
  \<^verbatim>\<open>gmtime\<close> gives: the whole hours modulo 24. It stays below 24 although the duration
  has 24 whole hours or more.
\<close>

theorem format_seconds_hour_of_day:
  assumes "positional d" and "86400 \<le> whole_seconds d"
  shows "format_seconds d =
           Inr (two_digits ((whole_seconds d div 3600) mod 24) @ '':'' @
                two_digits ((whole_seconds d div 60) mod 60) @ '':'' @
                two_digits (whole_seconds d mod 60) @ ''.'' @
                map digit_char (take 3 (fraction_digits d))) \<and>
         (whole_seconds d div 3600) mod 24 < 24 \<and> 24 \<le> whole_seconds d div 3600"
proof -
  obtain whole where w: "list_all is_digit whole"
    and r: "float_repr d = whole @ ''.'' @ map digit_char (fraction_digits d)"
    using float_repr_positional [OF assms(1)] by blast
  have "format_seconds d =
      Inr (strftime_HMS (gmtime d) @ ''.'' @ take 3 (map digit_char (fraction_digits d)))"
    using r w by (rule format_seconds_numeral) (rule list_all_digit_chars)
  then have a: "format_seconds d =
           Inr (two_digits ((whole_seconds d div 3600) mod 24) @ '':'' @
                two_digits ((whole_seconds d div 60) mod 60) @ '':'' @
                two_digits (whole_seconds d mod 60) @ ''.'' @
                map digit_char (take 3 (fraction_digits d)))"
    by (simp add: take_map strftime_HMS_def gmtime_def Let_def)
  have b: "24 \<le> whole_seconds d div 3600"
    using assms(2) by (simp add: less_eq_div_iff_mult_less_eq)
  from a b show ?thesis by simp
qed

text \<open>25 hours, 1 minute and 1.5 seconds: the text is \<^verbatim>\<open>01:01:01.5\<close>.\<close>

theorem format_seconds_hour_of_day_witness:
  "positional \<lparr>digits = [9, 0, 0, 6, 1, 5], decpt = 5\<rparr> \<and>
   86400 \<le> whole_seconds \<lparr>digits = [9, 0, 0, 6, 1, 5], decpt = 5\<rparr> \<and>
   format_seconds \<lparr>digits = [9, 0, 0, 6, 1, 5], decpt = 5\<rparr> = Inr ''01:01:01.5''"
  using format_seconds_hour_of_day [of "\<lparr>digits = [9, 0, 0, 6, 1, 5], decpt = 5\<rparr>"]
  by (simp add: eval_defs)

text \<open>
  Claim C5 as stated fails at 25 hours, \<open>90000.0\<close> seconds: the hour field is
  \<^verbatim>\<open>01\<close>, not \<^verbatim>\<open>25\<close>.
\<close>

theorem format_seconds_25_hours:
  "whole_seconds \<lparr>digits = [9], decpt = 5\<rparr> = 25 * 3600 \<and>
   format_seconds \<lparr>digits = [9], decpt = 5\<rparr> = Inr ''01:00:00.0'' \<and>
   take 2 ''01:00:00.0'' \<noteq> ''25''"
  by (simp add: format_seconds_def float_repr_def eval_defs replicate_pos)




text \<open>
  Claim C9. \<^verbatim>\<open>format_seconds\<close> is not total on the non-negative floats: \<^verbatim>\<open>str(1e-07)\<close> is
  \<^verbatim>\<open>1e-07\<close>, which has no point, so \<^verbatim>\<open>split(".")\<close> has one element and \<^verbatim>\<open>[1]\<close> raises
  \<^verbatim>\<open>IndexError\<close>.
\<close>

theorem format_seconds_raises_IndexError:
  "wf_pyfloat \<lparr>digits = [1], decpt = - 6\<rparr> \<and>
   float_repr \<lparr>digits = [1], decpt = - 6\<rparr> = ''1e-07'' \<and>
   CHR ''.'' \<notin> set (float_repr \<lparr>digits = [1], decpt = - 6\<rparr>) \<and>
   format_seconds \<lparr>digits = [1], decpt = - 6\<rparr> = Inl IndexError"
  by (simp add: format_seconds_def float_repr_def exponent_text_def decimal.simps [of 7] eval_defs)

section \<open>The key handler against the transition table\<close>

lemmas run_defs = initial_def handle_user_event_def display_time_def stop_def after_cancel_def
  restart_def start_def tk_after_def truth_def truthy_def phase_of_def transmit_to_influxdb_def
  write_request_def subscript_def solving_point_def cube_options_def format_seconds_def
  float_repr_def




text \<open>
  Claim C7. After any sequence of key presses, timer callbacks, clicks on the send
  button (whatever the server answers) and menu choices, a final time is set exactly
  when the session is \<open>Stopped\<close> or \<open>Sent\<close>.
\<close>

theorem final_time_iff_stopped_or_sent:
  "final_time (mainloop fsub evs (initial cfg)) \<noteq> None \<longleftrightarrow>
     phase_of (mainloop fsub evs (initial cfg)) = Stopped \<or>
     phase_of (mainloop fsub evs (initial cfg)) = Sent"
  using consistent_reachable [of fsub evs cfg]
  by (auto simp: consistent_def phase_of_def)

text \<open>Start and stop: the final time is set and the session is \<open>Stopped\<close>.\<close>

theorem final_time_iff_stopped_or_sent_witness:
  "final_time (mainloop (\<lambda>a b. a)
      [Key ''space'' \<lparr>digits = [0], decpt = 1\<rparr>, Key ''space'' \<lparr>digits = [1, 2, 5], decpt = 2\<rparr>]
      (initial Map.empty)) \<noteq> None \<and>
   phase_of (mainloop (\<lambda>a b. a)
      [Key ''space'' \<lparr>digits = [0], decpt = 1\<rparr>, Key ''space'' \<lparr>digits = [1, 2, 5], decpt = 2\<rparr>]
      (initial Map.empty)) = Stopped"
  using final_time_iff_stopped_or_sent
    [of "\<lambda>a b. a" "[Key ''space'' \<lparr>digits = [0], decpt = 1\<rparr>, Key ''space'' \<lparr>digits = [1, 2, 5], decpt = 2\<rparr>]" Map.empty]
  by (simp add: run_defs eval_defs)

text \<open>
  Claim C10. \<^verbatim>\<open>stop\<close> leaves the start instant as it was and stores the elapsed time
  as the final time; in every state the window reaches, a final time that is set comes
  with a start instant that is set; and an event that clears a start instant is the
  reset key, handled by \<^verbatim>\<open>restart\<close>.
\<close>

theorem stop_keeps_start_time:
  "start_time (fst (stop fsub now st)) = start_time st \<and>
   (start_time st = Some t0 \<and> after_id st \<noteq> None \<longrightarrow>
      final_time (fst (stop fsub now st)) = Some (fsub now t0)) \<and>
   (final_time (mainloop fsub evs (initial cfg)) \<noteq> None \<longrightarrow>
      start_time (mainloop fsub evs (initial cfg)) \<noteq> None) \<and>
   (start_time st \<noteq> None \<and> start_time (fst (dispatch fsub ev st)) = None \<longrightarrow>
      (\<exists>now'. ev = Key ''a'' now') \<and> fst (dispatch fsub ev st) = restart st)"
proof -
  have a: "start_time (fst (stop fsub now st)) = start_time st"
    by (auto simp: stop_def after_cancel_def Let_def split: option.splits sum.splits)
  have b: "start_time st = Some t0 \<and> after_id st \<noteq> None \<longrightarrow>
      final_time (fst (stop fsub now st)) = Some (fsub now t0)"
    by (auto simp: stop_def after_cancel_def Let_def split: option.splits sum.splits)
  have c: "final_time (mainloop fsub evs (initial cfg)) \<noteq> None \<longrightarrow>
      start_time (mainloop fsub evs (initial cfg)) \<noteq> None"
    using consistent_reachable [of fsub evs cfg] by (auto simp: consistent_def)
  have d: "start_time st \<noteq> None \<and> start_time (fst (dispatch fsub ev st)) = None \<longrightarrow>
      (\<exists>now'. ev = Key ''a'' now') \<and> fst (dispatch fsub ev st) = restart st"
  proof (cases ev)
    case (Key keysym now')
    have "start_time (fst (stop fsub now' st)) = start_time st"
      by (auto simp: stop_def after_cancel_def Let_def split: option.splits sum.splits)
    then show ?thesis using Key
      by (auto simp: handle_user_event_def split: if_splits)
  next
    case (Tick now')
    then show ?thesis
      by (auto simp: display_time_def tk_after_def split: list.splits option.splits sum.splits)
  next
    case (Click_send wr)
    then show ?thesis
      by (auto simp: transmit_to_influxdb_def split: option.splits sum.splits write_outcome.splits)
  next
    case (Select_cube c)
    then show ?thesis by auto
  qed
  from a b c d show ?thesis by blast
qed

text \<open>
  A session started at clock reading \<open>0.0\<close> and stopped at \<open>12.5\<close> keeps its start
  instant; the reset key then clears it.
\<close>

theorem stop_keeps_start_time_witness:
  "start_time
     (initial Map.empty\<lparr>start_time := Some \<lparr>digits = [0], decpt = 1\<rparr>, after_id := Some 0\<rparr>) =
     Some \<lparr>digits = [0], decpt = 1\<rparr> \<and>
   after_id
     (initial Map.empty\<lparr>start_time := Some \<lparr>digits = [0], decpt = 1\<rparr>, after_id := Some 0\<rparr>) \<noteq> None \<and>
   start_time (fst (stop (\<lambda>a b. a) \<lparr>digits = [1, 2, 5], decpt = 2\<rparr>
     (initial Map.empty\<lparr>start_time := Some \<lparr>digits = [0], decpt = 1\<rparr>, after_id := Some 0\<rparr>))) =
     Some \<lparr>digits = [0], decpt = 1\<rparr> \<and>
   final_time (fst (stop (\<lambda>a b. a) \<lparr>digits = [1, 2, 5], decpt = 2\<rparr>
     (initial Map.empty\<lparr>start_time := Some \<lparr>digits = [0], decpt = 1\<rparr>, after_id := Some 0\<rparr>))) =
     Some \<lparr>digits = [1, 2, 5], decpt = 2\<rparr> \<and>
   final_time
     (mainloop (\<lambda>a b. a)
       [Key ''space'' \<lparr>digits = [0], decpt = 1\<rparr>,
        Key ''space'' \<lparr>digits = [1, 2, 5], decpt = 2\<rparr>]
       (initial Map.empty)) \<noteq> None \<and>
   start_time
     (mainloop (\<lambda>a b. a)
       [Key ''space'' \<lparr>digits = [0], decpt = 1\<rparr>,
        Key ''space'' \<lparr>digits = [1, 2, 5], decpt = 2\<rparr>]
       (initial Map.empty)) \<noteq> None \<and>
   start_time (fst (dispatch (\<lambda>a b. a) (Key ''a'' \<lparr>digits = [1, 2, 5], decpt = 2\<rparr>)
     (mainloop (\<lambda>a b. a)
       [Key ''space'' \<lparr>digits = [0], decpt = 1\<rparr>,
        Key ''space'' \<lparr>digits = [1, 2, 5], decpt = 2\<rparr>]
       (initial Map.empty)))) = None \<and>
   fst (dispatch (\<lambda>a b. a) (Key ''a'' \<lparr>digits = [1, 2, 5], decpt = 2\<rparr>)
     (mainloop (\<lambda>a b. a)
       [Key ''space'' \<lparr>digits = [0], decpt = 1\<rparr>,
        Key ''space'' \<lparr>digits = [1, 2, 5], decpt = 2\<rparr>]
       (initial Map.empty))) =
   restart
     (mainloop (\<lambda>a b. a)
       [Key ''space'' \<lparr>digits = [0], decpt = 1\<rparr>,
        Key ''space'' \<lparr>digits = [1, 2, 5], decpt = 2\<rparr>]
       (initial Map.empty))"
  using stop_keeps_start_time
    [of "(\<lambda>a b. a)" "\<lparr>digits = [1, 2, 5], decpt = 2\<rparr>"
        "(initial Map.empty\<lparr>start_time := Some \<lparr>digits = [0], decpt = 1\<rparr>, after_id := Some 0\<rparr>)"
        "\<lparr>digits = [0], decpt = 1\<rparr>"
        "[Key ''space'' \<lparr>digits = [0], decpt = 1\<rparr>,
          Key ''space'' \<lparr>digits = [1, 2, 5], decpt = 2\<rparr>]"
        Map.empty "Key ''a'' \<lparr>digits = [1, 2, 5], decpt = 2\<rparr>"]
  by (simp add: run_defs eval_defs)

section \<open>Sending the recorded time\<close>

lemma transmit_status_only:
  "fst (transmit_to_influxdb wr r st) =
     st\<lparr>label_text := label_text (fst (transmit_to_influxdb wr r st)),
        influx_btn_text := influx_btn_text (fst (transmit_to_influxdb wr r st))\<rparr>"
  by (simp add: transmit_to_influxdb_def split: option.splits sum.splits write_outcome.splits)

lemma repeated_sends_status_only:
  "\<exists>l b. mainloop fsub (map Click_send wrs) st = st\<lparr>label_text := l, influx_btn_text := b\<rparr>"
proof (induction wrs arbitrary: st)
  case Nil
  show ?case
    by (rule exI [of _ "label_text st"], rule exI [of _ "influx_btn_text st"]) simp
next
  case (Cons wr wrs)
  define st1 where "st1 = fst (transmit_to_influxdb wr (final_time st) st)"
  obtain l b where 1: "mainloop fsub (map Click_send wrs) st1 = st1\<lparr>label_text := l, influx_btn_text := b\<rparr>"
    using Cons.IH by blast
  have 2: "st1 = st\<lparr>label_text := label_text st1, influx_btn_text := influx_btn_text st1\<rparr>"
    unfolding st1_def by (rule transmit_status_only)
  have "st1\<lparr>label_text := l, influx_btn_text := b\<rparr> = st\<lparr>label_text := l, influx_btn_text := b\<rparr>"
    by (subst 2) simp
  then have "mainloop fsub (map Click_send (wr # wrs)) st = st\<lparr>label_text := l, influx_btn_text := b\<rparr>"
    using 1 by (simp add: st1_def)
  then show ?case by blast
qed

text \<open>
  Claim C4, as the code has it. In the \<open>Stopped\<close> state, with a final time recorded and
  a configuration from which the call is built: if the write raises \<^verbatim>\<open>InfluxDBError\<close>,
  the click leaves everything but the label as it was, the label shows the error text
  and the session is still \<open>Stopped\<close>; if the write returns, the only change is the
  caption \<^verbatim>\<open>Data sent to InfluxDb!\<close> and the session is \<open>Sent\<close>; if the write fails with an
  exception of another class, the exception escapes the handler and the window is left
  exactly as it was, with no message; and any number of clicks, whatever each write
  does, change the label text and the caption only.
\<close>

theorem transmit_outcomes:
  assumes "phase_of st = Stopped" and "final_time st = Some d"
    and "write_request st d = Inr call"
  shows "(wr call = Raises_InfluxDBError msg \<longrightarrow>
            dispatch fsub (Click_send wr) st = (st\<lparr>label_text := msg\<rparr>, None) \<and>
            phase_of (st\<lparr>label_text := msg\<rparr>) = Stopped) \<and>
         (wr call = Written \<longrightarrow>
            dispatch fsub (Click_send wr) st = (st\<lparr>influx_btn_text := ''Data sent to InfluxDb!''\<rparr>, None) \<and>
            phase_of (st\<lparr>influx_btn_text := ''Data sent to InfluxDb!''\<rparr>) = Sent) \<and>
         (wr call = Raises_other \<longrightarrow>
            dispatch fsub (Click_send wr) st = (st, Some UncaughtError)) \<and>
         (\<exists>l b. mainloop fsub (map Click_send wrs) st = st\<lparr>label_text := l, influx_btn_text := b\<rparr>)"
proof -
  have shown: "influx_btn_shown st" "influx_btn_text st \<noteq> ''Data sent to InfluxDb!''"
    using assms(1) by (auto simp: phase_of_def split: if_splits)
  have a: "wr call = Raises_InfluxDBError msg \<longrightarrow>
            dispatch fsub (Click_send wr) st = (st\<lparr>label_text := msg\<rparr>, None) \<and>
            phase_of (st\<lparr>label_text := msg\<rparr>) = Stopped"
    using assms shown by (simp add: transmit_to_influxdb_def phase_of_def)
  have b: "wr call = Written \<longrightarrow>
            dispatch fsub (Click_send wr) st = (st\<lparr>influx_btn_text := ''Data sent to InfluxDb!''\<rparr>, None) \<and>
            phase_of (st\<lparr>influx_btn_text := ''Data sent to InfluxDb!''\<rparr>) = Sent"
    using assms shown by (simp add: transmit_to_influxdb_def phase_of_def)
  have c: "wr call = Raises_other \<longrightarrow>
            dispatch fsub (Click_send wr) st = (st, Some UncaughtError)"
    using assms by (simp add: transmit_to_influxdb_def)
  from a b c repeated_sends_status_only [of fsub wrs st] show ?thesis by blast
qed

text \<open>
  A stopped session of 12.5 seconds: a write that the server refuses, a write that
  succeeds, a write that fails with another exception, and two clicks one after the
  other.
\<close>

theorem transmit_outcomes_witness:
  "phase_of
     (mainloop (\<lambda>a b. a)
       [Key ''space'' \<lparr>digits = [0], decpt = 1\<rparr>,
        Key ''space'' \<lparr>digits = [1, 2, 5], decpt = 2\<rparr>]
       (initial
          ([''INFLUX_URL'' \<mapsto> ''http://localhost:8086'', ''INFLUX_TOKEN'' \<mapsto> ''secret'',
           ''INFLUX_ORG'' \<mapsto> ''home'', ''INFLUX_BUCKET'' \<mapsto> ''cubes'']))) = Stopped \<and>
   final_time
     (mainloop (\<lambda>a b. a)
       [Key ''space'' \<lparr>digits = [0], decpt = 1\<rparr>,
        Key ''space'' \<lparr>digits = [1, 2, 5], decpt = 2\<rparr>]
       (initial
          ([''INFLUX_URL'' \<mapsto> ''http://localhost:8086'', ''INFLUX_TOKEN'' \<mapsto> ''secret'',
           ''INFLUX_ORG'' \<mapsto> ''home'', ''INFLUX_BUCKET'' \<mapsto> ''cubes'']))) =
     Some \<lparr>digits = [1, 2, 5], decpt = 2\<rparr> \<and>
   write_request
     (mainloop (\<lambda>a b. a)
       [Key ''space'' \<lparr>digits = [0], decpt = 1\<rparr>,
        Key ''space'' \<lparr>digits = [1, 2, 5], decpt = 2\<rparr>]
       (initial
          ([''INFLUX_URL'' \<mapsto> ''http://localhost:8086'', ''INFLUX_TOKEN'' \<mapsto> ''secret'',
           ''INFLUX_ORG'' \<mapsto> ''home'', ''INFLUX_BUCKET'' \<mapsto> ''cubes''])))
     \<lparr>digits = [1, 2, 5], decpt = 2\<rparr> =
     Inr \<lparr>url = ''http://localhost:8086'', token = ''secret'', org = ''home'', bucket = ''cubes'',
          data = \<lparr>measurement = ''solving_time'', point_tags = [(''cube'', ''speed'')],
                  point_fields = [(''recorded_time'', \<lparr>digits = [1, 2, 5], decpt = 2\<rparr>)]\<rparr>\<rparr> \<and>
   dispatch (\<lambda>a b. a) (Click_send (\<lambda>call. Raises_InfluxDBError ''unauthorized access''))
     (mainloop (\<lambda>a b. a)
       [Key ''space'' \<lparr>digits = [0], decpt = 1\<rparr>,
        Key ''space'' \<lparr>digits = [1, 2, 5], decpt = 2\<rparr>]
       (initial
          ([''INFLUX_URL'' \<mapsto> ''http://localhost:8086'', ''INFLUX_TOKEN'' \<mapsto> ''secret'',
           ''INFLUX_ORG'' \<mapsto> ''home'', ''INFLUX_BUCKET'' \<mapsto> ''cubes'']))) =
     ((mainloop (\<lambda>a b. a)
       [Key ''space'' \<lparr>digits = [0], decpt = 1\<rparr>,
        Key ''space'' \<lparr>digits = [1, 2, 5], decpt = 2\<rparr>]
       (initial
          ([''INFLUX_URL'' \<mapsto> ''http://localhost:8086'', ''INFLUX_TOKEN'' \<mapsto> ''secret'',
           ''INFLUX_ORG'' \<mapsto> ''home'', ''INFLUX_BUCKET'' \<mapsto> ''cubes''])))
        \<lparr>label_text := ''unauthorized access''\<rparr>, None) \<and>
   phase_of
     ((mainloop (\<lambda>a b. a)
       [Key ''space'' \<lparr>digits = [0], decpt = 1\<rparr>,
        Key ''space'' \<lparr>digits = [1, 2, 5], decpt = 2\<rparr>]
       (initial
          ([''INFLUX_URL'' \<mapsto> ''http://localhost:8086'', ''INFLUX_TOKEN'' \<mapsto> ''secret'',
           ''INFLUX_ORG'' \<mapsto> ''home'', ''INFLUX_BUCKET'' \<mapsto> ''cubes''])))
        \<lparr>label_text := ''unauthorized access''\<rparr>) = Stopped \<and>
   dispatch (\<lambda>a b. a) (Click_send (\<lambda>call. Written))
     (mainloop (\<lambda>a b. a)
       [Key ''space'' \<lparr>digits = [0], decpt = 1\<rparr>,
        Key ''space'' \<lparr>digits = [1, 2, 5], decpt = 2\<rparr>]
       (initial
          ([''INFLUX_URL'' \<mapsto> ''http://localhost:8086'', ''INFLUX_TOKEN'' \<mapsto> ''secret'',
           ''INFLUX_ORG'' \<mapsto> ''home'', ''INFLUX_BUCKET'' \<mapsto> ''cubes'']))) =
     ((mainloop (\<lambda>a b. a)
       [Key ''space'' \<lparr>digits = [0], decpt = 1\<rparr>,
        Key ''space'' \<lparr>digits = [1, 2, 5], decpt = 2\<rparr>]
       (initial
          ([''INFLUX_URL'' \<mapsto> ''http://localhost:8086'', ''INFLUX_TOKEN'' \<mapsto> ''secret'',
           ''INFLUX_ORG'' \<mapsto> ''home'', ''INFLUX_BUCKET'' \<mapsto> ''cubes''])))
        \<lparr>influx_btn_text := ''Data sent to InfluxDb!''\<rparr>, None) \<and>
   phase_of
     ((mainloop (\<lambda>a b. a)
       [Key ''space'' \<lparr>digits = [0], decpt = 1\<rparr>,
        Key ''space'' \<lparr>digits = [1, 2, 5], decpt = 2\<rparr>]
       (initial
          ([''INFLUX_URL'' \<mapsto> ''http://localhost:8086'', ''INFLUX_TOKEN'' \<mapsto> ''secret'',
           ''INFLUX_ORG'' \<mapsto> ''home'', ''INFLUX_BUCKET'' \<mapsto> ''cubes''])))
        \<lparr>influx_btn_text := ''Data sent to InfluxDb!''\<rparr>) = Sent \<and>
   dispatch (\<lambda>a b. a) (Click_send (\<lambda>call. Raises_other))
     (mainloop (\<lambda>a b. a)
       [Key ''space'' \<lparr>digits = [0], decpt = 1\<rparr>,
        Key ''space'' \<lparr>digits = [1, 2, 5], decpt = 2\<rparr>]
       (initial
          ([''INFLUX_URL'' \<mapsto> ''http://localhost:8086'', ''INFLUX_TOKEN'' \<mapsto> ''secret'',
           ''INFLUX_ORG'' \<mapsto> ''home'', ''INFLUX_BUCKET'' \<mapsto> ''cubes'']))) =
     ((mainloop (\<lambda>a b. a)
       [Key ''space'' \<lparr>digits = [0], decpt = 1\<rparr>,
        Key ''space'' \<lparr>digits = [1, 2, 5], decpt = 2\<rparr>]
       (initial
          ([''INFLUX_URL'' \<mapsto> ''http://localhost:8086'', ''INFLUX_TOKEN'' \<mapsto> ''secret'',
           ''INFLUX_ORG'' \<mapsto> ''home'', ''INFLUX_BUCKET'' \<mapsto> ''cubes'']))),
      Some UncaughtError) \<and>
   mainloop (\<lambda>a b. a)
     (map Click_send [(\<lambda>call. Raises_InfluxDBError ''unauthorized access''), (\<lambda>call. Written)])
     (mainloop (\<lambda>a b. a)
       [Key ''space'' \<lparr>digits = [0], decpt = 1\<rparr>,
        Key ''space'' \<lparr>digits = [1, 2, 5], decpt = 2\<rparr>]
       (initial
          ([''INFLUX_URL'' \<mapsto> ''http://localhost:8086'', ''INFLUX_TOKEN'' \<mapsto> ''secret'',
           ''INFLUX_ORG'' \<mapsto> ''home'', ''INFLUX_BUCKET'' \<mapsto> ''cubes'']))) =
     (mainloop (\<lambda>a b. a)
       [Key ''space'' \<lparr>digits = [0], decpt = 1\<rparr>,
        Key ''space'' \<lparr>digits = [1, 2, 5], decpt = 2\<rparr>]
       (initial
          ([''INFLUX_URL'' \<mapsto> ''http://localhost:8086'', ''INFLUX_TOKEN'' \<mapsto> ''secret'',
           ''INFLUX_ORG'' \<mapsto> ''home'', ''INFLUX_BUCKET'' \<mapsto> ''cubes''])))
        \<lparr>label_text := ''unauthorized access'', influx_btn_text := ''Data sent to InfluxDb!''\<rparr>"
  using
    transmit_outcomes
    [of "(mainloop (\<lambda>a b. a)
       [Key ''space'' \<lparr>digits = [0], decpt = 1\<rparr>,
        Key ''space'' \<lparr>digits = [1, 2, 5], decpt = 2\<rparr>]
       (initial
          ([''INFLUX_URL'' \<mapsto> ''http://localhost:8086'', ''INFLUX_TOKEN'' \<mapsto> ''secret'',
           ''INFLUX_ORG'' \<mapsto> ''home'', ''INFLUX_BUCKET'' \<mapsto> ''cubes''])))"
        "\<lparr>digits = [1, 2, 5], decpt = 2\<rparr>"
        "\<lparr>url = ''http://localhost:8086'', token = ''secret'', org = ''home'', bucket = ''cubes'',
          data = \<lparr>measurement = ''solving_time'', point_tags = [(''cube'', ''speed'')],
                  point_fields = [(''recorded_time'', \<lparr>digits = [1, 2, 5], decpt = 2\<rparr>)]\<rparr>\<rparr>"
        "(\<lambda>call. Raises_InfluxDBError ''unauthorized access'')" "''unauthorized access''" "(\<lambda>a b. a)"
        "[]"]
    transmit_outcomes
    [of "(mainloop (\<lambda>a b. a)
       [Key ''space'' \<lparr>digits = [0], decpt = 1\<rparr>,
        Key ''space'' \<lparr>digits = [1, 2, 5], decpt = 2\<rparr>]
       (initial
          ([''INFLUX_URL'' \<mapsto> ''http://localhost:8086'', ''INFLUX_TOKEN'' \<mapsto> ''secret'',
           ''INFLUX_ORG'' \<mapsto> ''home'', ''INFLUX_BUCKET'' \<mapsto> ''cubes''])))"
        "\<lparr>digits = [1, 2, 5], decpt = 2\<rparr>"
        "\<lparr>url = ''http://localhost:8086'', token = ''secret'', org = ''home'', bucket = ''cubes'',
          data = \<lparr>measurement = ''solving_time'', point_tags = [(''cube'', ''speed'')],
                  point_fields = [(''recorded_time'', \<lparr>digits = [1, 2, 5], decpt = 2\<rparr>)]\<rparr>\<rparr>"
        "(\<lambda>call. Written)" "''''" "(\<lambda>a b. a)"
        "[]"]
    transmit_outcomes
    [of "(mainloop (\<lambda>a b. a)
       [Key ''space'' \<lparr>digits = [0], decpt = 1\<rparr>,
        Key ''space'' \<lparr>digits = [1, 2, 5], decpt = 2\<rparr>]
       (initial
          ([''INFLUX_URL'' \<mapsto> ''http://localhost:8086'', ''INFLUX_TOKEN'' \<mapsto> ''secret'',
           ''INFLUX_ORG'' \<mapsto> ''home'', ''INFLUX_BUCKET'' \<mapsto> ''cubes''])))"
        "\<lparr>digits = [1, 2, 5], decpt = 2\<rparr>"
        "\<lparr>url = ''http://localhost:8086'', token = ''secret'', org = ''home'', bucket = ''cubes'',
          data = \<lparr>measurement = ''solving_time'', point_tags = [(''cube'', ''speed'')],
                  point_fields = [(''recorded_time'', \<lparr>digits = [1, 2, 5], decpt = 2\<rparr>)]\<rparr>\<rparr>"
        "(\<lambda>call. Raises_other)" "''''" "(\<lambda>a b. a)"
        "[]"]
  by (simp add: run_defs eval_defs Let_def)

text \<open>
  Claim C4 as stated fails for a write that fails with an exception other than
  \<^verbatim>\<open>InfluxDBError\<close> (a refused connection, say): \<^verbatim>\<open>except InfluxDBError\<close> does not catch it,
  and the label still shows the elapsed time, not an error message.
\<close>

theorem uncaught_write_failure_not_displayed:
  "phase_of
     (mainloop (\<lambda>a b. a)
       [Key ''space'' \<lparr>digits = [0], decpt = 1\<rparr>,
        Key ''space'' \<lparr>digits = [1, 2, 5], decpt = 2\<rparr>]
       (initial
          ([''INFLUX_URL'' \<mapsto> ''http://localhost:8086'', ''INFLUX_TOKEN'' \<mapsto> ''secret'',
           ''INFLUX_ORG'' \<mapsto> ''home'', ''INFLUX_BUCKET'' \<mapsto> ''cubes'']))) = Stopped \<and>
   dispatch (\<lambda>a b. a) (Click_send (\<lambda>call. Raises_other))
     (mainloop (\<lambda>a b. a)
       [Key ''space'' \<lparr>digits = [0], decpt = 1\<rparr>,
        Key ''space'' \<lparr>digits = [1, 2, 5], decpt = 2\<rparr>]
       (initial
          ([''INFLUX_URL'' \<mapsto> ''http://localhost:8086'', ''INFLUX_TOKEN'' \<mapsto> ''secret'',
           ''INFLUX_ORG'' \<mapsto> ''home'', ''INFLUX_BUCKET'' \<mapsto> ''cubes'']))) =
     ((mainloop (\<lambda>a b. a)
       [Key ''space'' \<lparr>digits = [0], decpt = 1\<rparr>,
        Key ''space'' \<lparr>digits = [1, 2, 5], decpt = 2\<rparr>]
       (initial
          ([''INFLUX_URL'' \<mapsto> ''http://localhost:8086'', ''INFLUX_TOKEN'' \<mapsto> ''secret'',
           ''INFLUX_ORG'' \<mapsto> ''home'', ''INFLUX_BUCKET'' \<mapsto> ''cubes'']))),
      Some UncaughtError) \<and>
   label_text (fst (dispatch (\<lambda>a b. a) (Click_send (\<lambda>call. Raises_other))
     (mainloop (\<lambda>a b. a)
       [Key ''space'' \<lparr>digits = [0], decpt = 1\<rparr>,
        Key ''space'' \<lparr>digits = [1, 2, 5], decpt = 2\<rparr>]
       (initial
          ([''INFLUX_URL'' \<mapsto> ''http://localhost:8086'', ''INFLUX_TOKEN'' \<mapsto> ''secret'',
           ''INFLUX_ORG'' \<mapsto> ''home'', ''INFLUX_BUCKET'' \<mapsto> ''cubes'']))))) =
     ''Elapsed time: 00:00:12.5 seconds''"
  by (simp add: run_defs eval_defs)



section \<open>Startup and the configuration\<close>

lemma handle_user_event_ignores_config:
  "fst (handle_user_event fsub keysym now (st\<lparr>config := cfg\<rparr>)) =
     (fst (handle_user_event fsub keysym now st))\<lparr>config := cfg\<rparr>"
  by (simp add: handle_user_event_def display_time_def stop_def after_cancel_def restart_def
      start_def tk_after_def Let_def split: option.splits sum.splits prod.splits)

lemma missing_key_raises:
  assumes "config st ''INFLUX_URL'' = None \<or> config st ''INFLUX_TOKEN'' = None \<or>
      config st ''INFLUX_ORG'' = None \<or> config st ''INFLUX_BUCKET'' = None"
  shows "\<exists>k'. k' \<in> set [''INFLUX_URL'', ''INFLUX_TOKEN'', ''INFLUX_ORG'', ''INFLUX_BUCKET''] \<and>
      write_request st d = Inl (KeyError k')"
  using assms
  by (cases "config st ''INFLUX_URL''"; cases "config st ''INFLUX_TOKEN''";
      cases "config st ''INFLUX_ORG''"; cases "config st ''INFLUX_BUCKET''")
    (simp_all add: write_request_def subscript_def)

text \<open>
  Claim C3, as the code has it. A missing configuration file is fatal at startup: the
  program ends with \<^verbatim>\<open>FileNotFoundError\<close> before the event loop, and no window is shown.
  A missing field is not looked for at startup: whatever keys the file has, the window
  opens (given a display and the image), and key presses are handled as with any other
  configuration. The missing key is met by a click on the send button only, which
  raises \<^verbatim>\<open>KeyError\<close> and leaves the window as it was.
\<close>

theorem missing_config_file_is_fatal:
  "(config_json env = Absent \<longrightarrow>
      init env = Inl (if display_ok env then FileNotFoundError else TclError)) \<and>
   (display_ok env \<and> image_ok env \<and> config_json env = Loaded cfg \<longrightarrow>
      init env = Inr (initial cfg)) \<and>
   (fst (handle_user_event fsub keysym now (st\<lparr>config := cfg\<rparr>)) =
      (fst (handle_user_event fsub keysym now st))\<lparr>config := cfg\<rparr>) \<and>
   (final_time st = Some d \<and> k \<in> set [''INFLUX_URL'', ''INFLUX_TOKEN'', ''INFLUX_ORG'', ''INFLUX_BUCKET''] \<and>
    config st k = None \<longrightarrow>
      (\<exists>k'. k' \<in> set [''INFLUX_URL'', ''INFLUX_TOKEN'', ''INFLUX_ORG'', ''INFLUX_BUCKET''] \<and>
        dispatch fsub (Click_send wr) st = (st, Some (KeyError k'))))"
proof -
  have a: "config_json env = Absent \<longrightarrow>
      init env = Inl (if display_ok env then FileNotFoundError else TclError)"
    by (simp add: init_def get_config_def)
  have b: "display_ok env \<and> image_ok env \<and> config_json env = Loaded cfg \<longrightarrow>
      init env = Inr (initial cfg)"
    by (simp add: init_def get_config_def)
  have d: "final_time st = Some d \<and> k \<in> set [''INFLUX_URL'', ''INFLUX_TOKEN'', ''INFLUX_ORG'', ''INFLUX_BUCKET''] \<and>
    config st k = None \<longrightarrow>
      (\<exists>k'. k' \<in> set [''INFLUX_URL'', ''INFLUX_TOKEN'', ''INFLUX_ORG'', ''INFLUX_BUCKET''] \<and>
        dispatch fsub (Click_send wr) st = (st, Some (KeyError k')))"
  proof (intro impI, elim conjE)
    assume f: "final_time st = Some d"
      and k: "k \<in> set [''INFLUX_URL'', ''INFLUX_TOKEN'', ''INFLUX_ORG'', ''INFLUX_BUCKET'']"
      and none: "config st k = None"
    have "config st ''INFLUX_URL'' = None \<or> config st ''INFLUX_TOKEN'' = None \<or>
        config st ''INFLUX_ORG'' = None \<or> config st ''INFLUX_BUCKET'' = None"
      using k none by auto
    then obtain k' where "k' \<in> set [''INFLUX_URL'', ''INFLUX_TOKEN'', ''INFLUX_ORG'', ''INFLUX_BUCKET'']"
      and "write_request st d = Inl (KeyError k')"
      using missing_key_raises by blast
    then show "\<exists>k'. k' \<in> set [''INFLUX_URL'', ''INFLUX_TOKEN'', ''INFLUX_ORG'', ''INFLUX_BUCKET''] \<and>
        dispatch fsub (Click_send wr) st = (st, Some (KeyError k'))"
      using f by (auto simp: transmit_to_influxdb_def)
  qed
  have c: "fst (handle_user_event fsub keysym now (st\<lparr>config := cfg\<rparr>)) =
      (fst (handle_user_event fsub keysym now st))\<lparr>config := cfg\<rparr>"
    by (rule handle_user_event_ignores_config)
  from a b c d show ?thesis by blast
qed

text \<open>No file; and an empty JSON object, with which a click on the send button raises.\<close>

theorem missing_config_file_is_fatal_witness:
  "init \<lparr>display_ok = True, config_json = Absent, image_ok = True\<rparr> = Inl FileNotFoundError \<and>
   init \<lparr>display_ok = True, config_json = Loaded Map.empty, image_ok = True\<rparr> =
     Inr (initial Map.empty) \<and>
   dispatch (\<lambda>a b. a) (Click_send (\<lambda>call. Written))
     (initial Map.empty\<lparr>final_time := Some \<lparr>digits = [1, 2, 5], decpt = 2\<rparr>\<rparr>) =
     ((initial Map.empty\<lparr>final_time := Some \<lparr>digits = [1, 2, 5], decpt = 2\<rparr>\<rparr>),
      Some (KeyError ''INFLUX_URL''))"
  using missing_config_file_is_fatal
    [of "\<lparr>display_ok = True, config_json = Absent, image_ok = True\<rparr>" Map.empty
        "(\<lambda>a b. a)" "''space''" "\<lparr>digits = [0], decpt = 1\<rparr>"
        "(initial Map.empty\<lparr>final_time := Some \<lparr>digits = [1, 2, 5], decpt = 2\<rparr>\<rparr>)"
        "\<lparr>digits = [1, 2, 5], decpt = 2\<rparr>" "''INFLUX_URL''" "\<lambda>call. Written"]
    missing_config_file_is_fatal
    [of "\<lparr>display_ok = True, config_json = Loaded Map.empty, image_ok = True\<rparr>" Map.empty]
  by (simp add: run_defs eval_defs init_def get_config_def)

text \<open>
  Claim C3 as stated fails for a configuration file that holds the empty object, in
  which all four fields are missing: the window opens, and the stopwatch starts and
  stops as usual.
\<close>

theorem missing_field_opens_window:
  "init \<lparr>display_ok = True, config_json = Loaded Map.empty, image_ok = True\<rparr> =
     Inr (initial Map.empty) \<and>
   phase_of (mainloop (\<lambda>a b. a) [Key ''space'' \<lparr>digits = [0], decpt = 1\<rparr>] (initial Map.empty)) =
     Running \<and>
   phase_of
     (mainloop (\<lambda>a b. a)
        [Key ''space'' \<lparr>digits = [0], decpt = 1\<rparr>,
         Key ''space'' \<lparr>digits = [1, 2, 5], decpt = 2\<rparr>]
        (initial Map.empty)) = Stopped \<and>
   label_text
     (mainloop (\<lambda>a b. a)
        [Key ''space'' \<lparr>digits = [0], decpt = 1\<rparr>,
         Key ''space'' \<lparr>digits = [1, 2, 5], decpt = 2\<rparr>]
        (initial Map.empty)) = ''Elapsed time: 00:00:12.5 seconds''"
  by (simp add: run_defs eval_defs init_def get_config_def)

end
